theory Spec2Isabelle
  imports Main "HOL-Library.Sublist"
begin

section \<open>The auth-service handlers of api.go\<close>

text \<open>
  The six HTTP handlers of \<^verbatim>\<open>auth-service/api/api.go\<close> (signup, signin, logout, verify,
  sendReset, resetPassword) are embedded as functions from an environment, the contents of
  the \<^verbatim>\<open>users\<close> table and a request to a result: the new table, the HTTP response, the log of
  calls to external collaborators, and whether the handler ended in a run-time panic.

  Everything the file calls but does not define is a field of the environment: the clock,
  the JWT constants and signer (\<^verbatim>\<open>setClaims\<close>), bcrypt, the UUID and token generators,
  \<^verbatim>\<open>SendEmail\<close>, and the database's failures.
\<close>

subsection \<open>The users table\<close>

text \<open>
  One row of \<^verbatim>\<open>users\<close>, with the columns the SQL statements of the file name. The column
  \<^verbatim>\<open>password\<close> is written by resetPassword only; \<^verbatim>\<open>hashedPassword\<close> is written by signup
  and read by signin. \<^verbatim>\<open>resetToken\<close> and \<^verbatim>\<open>password\<close> are not given by the INSERT of signup,
  so they are nullable here (\<open>None\<close> is SQL NULL, which equals no string). The table is a list
  in insertion order: \<^verbatim>\<open>QueryRow\<close> scans the first matching row. Strings are compared exactly.
\<close>

record user =
  username :: string
  email :: string
  hashedPassword :: string
  verifiedToken :: string
  userId :: string
  verified :: bool
  resetToken :: "string option"
  password :: "string option"

datatype stmt =
    UsernameExists     \<comment> \<open>SELECT EXISTS(SELECT * FROM users WHERE username = ?)\<close>
  | EmailExists        \<comment> \<open>SELECT EXISTS(SELECT * FROM users WHERE email = ?)\<close>
  | InsertUser         \<comment> \<open>INSERT INTO users (username, email, hashedPassword, verifiedToken, userId)\<close>
  | SelectByEmail      \<comment> \<open>SELECT hashedPassword, userId FROM users WHERE email = ?\<close>
  | UpdateVerified     \<comment> \<open>UPDATE users SET verified = ? WHERE verifiedToken = ?\<close>
  | UpdateResetToken   \<comment> \<open>UPDATE users SET resetToken = ? WHERE email = ?\<close>
  | PairExists         \<comment> \<open>SELECT EXISTS(SELECT * FROM users WHERE username = ? AND resetToken = ?)\<close>
  | UpdatePassword     \<comment> \<open>UPDATE users SET resetToken = ?, password = ? WHERE email = ?\<close>

subsection \<open>Requests, responses, claims\<close>

datatype http_method = POST | OPTIONS

record Credentials =
  Username :: string
  Email :: string
  Password :: string

text \<open>
  A request: its method (the router admits POST and OPTIONS), the URL query (the values of
  each key, \<open>[]\<close> for an absent key), the JSON body decoded into \<^verbatim>\<open>Credentials\<close> (\<open>None\<close>
  when decoding fails) and the cookies the client presents, which no handler reads.
\<close>

record request =
  meth :: http_method
  query :: "string \<Rightarrow> string list"
  body :: "Credentials option"
  req_cookies :: "(string \<times> string) list"

definition query_Get :: "request \<Rightarrow> string \<Rightarrow> string" where
  "query_Get r k = (case query r k of [] \<Rightarrow> [] | v # vs \<Rightarrow> v)"

record Cookie =
  Name :: string
  Value :: string
  Expires :: int
  Path :: string

record response =
  status :: nat
  rbody :: string
  cookies :: "Cookie list"

record AuthClaims =
  UserID :: string
  Subject :: string
  ExpiresAt :: int
  Issuer :: string
  IssuedAt :: int

datatype call =
    DB stmt
  | Generate_Hash
  | Compare_Hash
  | New_UUID
  | Random_Token
  | Set_Claims AuthClaims
  | Send_Email string string string string

text \<open>
  The result of a handler. Each entry of \<open>trace\<close> is a call the handler made, in order, with
  whether the handler went on after it (the call returned no error and the check on its
  result passed). \<open>panicked\<close>: the handler ended in a nil dereference
  (\<^verbatim>\<open>log.Print(err.Error())\<close> with \<^verbatim>\<open>err == nil\<close>) after writing the response.
\<close>

record result =
  store :: "user list"
  resp :: response
  trace :: "(call \<times> bool) list"
  panicked :: bool

subsection \<open>The environment\<close>

text \<open>
  Times are nanoseconds since the epoch and durations nanoseconds, as unbounded integers.
  \<open>now e k\<close> is what the handler's k-th call of \<^verbatim>\<open>time.Now()\<close> returns.
  \<open>db_error e s\<close> is the error of statement \<open>s\<close>, if it fails. \<open>bind_strings\<close> is what the
  database driver binds for an argument of type \<^verbatim>\<open>[]string\<close> (verify passes the whole
  \<^verbatim>\<open>token\<close> slice), \<open>None\<close> when it rejects the argument. The three defaults are the values
  the table gives to the columns the INSERT of signup leaves out.
\<close>

record env =
  now :: "nat \<Rightarrow> int"
  DefaultAccessJWTExpiry :: int
  DefaultRefreshJWTExpiry :: int
  defaultJWTIssuer :: string
  setClaims :: "AuthClaims \<Rightarrow> string option"
  GenerateFromPassword :: "string \<Rightarrow> string option"
  CompareHashAndPassword :: "string \<Rightarrow> string \<Rightarrow> bool"
  uuid_New :: string
  GetRandomBase62 :: "nat \<Rightarrow> string"
  SendEmail :: "string \<Rightarrow> string \<Rightarrow> string \<Rightarrow> string \<Rightarrow> bool"
  db_error :: "stmt \<Rightarrow> string option"
  bind_strings :: "string list \<Rightarrow> string option"
  verified_default :: bool
  resetToken_default :: "string option"
  password_default :: "string option"

definition verifyTokenSize :: nat where
  "verifyTokenSize = 6"

definition resetTokenSize :: nat where
  "resetTokenSize = 6"

definition Unix :: "int \<Rightarrow> int" where
  "Unix t = t div 1000000000"

subsection \<open>Writing the response\<close>

definition w0 :: response where
  "w0 = \<lparr>status = 200, rbody = [], cookies = []\<rparr>"

definition http_Error :: "response \<Rightarrow> string \<Rightarrow> nat \<Rightarrow> response" where
  "http_Error w msg code = w\<lparr>status := code, rbody := msg @ [CHR 0x0A]\<rparr>"

definition SetCookie :: "response \<Rightarrow> Cookie \<Rightarrow> response" where
  "SetCookie w c = w\<lparr>cookies := cookies w @ [c]\<rparr>"

definition WriteHeader :: "response \<Rightarrow> nat \<Rightarrow> response" where
  "WriteHeader w code = w\<lparr>status := code\<rparr>"

definition reply :: "user list \<Rightarrow> response \<Rightarrow> (call \<times> bool) list \<Rightarrow> result" where
  "reply st w tr = \<lparr>store = st, resp = w, trace = tr, panicked = False\<rparr>"

definition nil_panic :: "user list \<Rightarrow> response \<Rightarrow> (call \<times> bool) list \<Rightarrow> result" where
  "nil_panic st w tr = \<lparr>store = st, resp = w, trace = tr, panicked = True\<rparr>"

subsection \<open>Session issuance (api.go 133-192 in signup, 255-314 in signin)\<close>

text \<open>
  The two handlers hold the same block: the access token, its cookie, the refresh token,
  its cookie. Each expiry is computed from one reading of the clock and each issued-at
  from the next one. The result says whether both tokens were signed.
\<close>

definition accessClaims :: "env \<Rightarrow> string \<Rightarrow> AuthClaims" where
  "accessClaims e uid =
     \<lparr>UserID = uid, Subject = ''access'',
      ExpiresAt = Unix (now e 0 + DefaultAccessJWTExpiry e),
      Issuer = defaultJWTIssuer e, IssuedAt = Unix (now e 1)\<rparr>"

definition refreshClaims :: "env \<Rightarrow> string \<Rightarrow> AuthClaims" where
  "refreshClaims e uid =
     \<lparr>UserID = uid, Subject = ''refresh'',
      ExpiresAt = Unix (now e 2 + DefaultRefreshJWTExpiry e),
      Issuer = defaultJWTIssuer e, IssuedAt = Unix (now e 3)\<rparr>"

definition issue_sessions ::
  "env \<Rightarrow> string \<Rightarrow> response \<Rightarrow> (call \<times> bool) list \<Rightarrow> response \<times> (call \<times> bool) list \<times> bool" where
  "issue_sessions e uid w tr =
     (case setClaims e (accessClaims e uid) of
        None \<Rightarrow>
          (http_Error w ''error generating access token'' 500,
           tr @ [(Set_Claims (accessClaims e uid), False)], False)
      | Some accessToken \<Rightarrow>
          (case setClaims e (refreshClaims e uid) of
             None \<Rightarrow>
               (http_Error
                  (SetCookie w \<lparr>Name = ''access_token'', Value = accessToken,
                     Expires = now e 0 + DefaultAccessJWTExpiry e, Path = ''/''\<rparr>)
                  ''error creating refreshToken'' 500,
                tr @ [(Set_Claims (accessClaims e uid), True),
                      (Set_Claims (refreshClaims e uid), False)], False)
           | Some refreshToken \<Rightarrow>
               (SetCookie
                  (SetCookie w \<lparr>Name = ''access_token'', Value = accessToken,
                     Expires = now e 0 + DefaultAccessJWTExpiry e, Path = ''/''\<rparr>)
                  \<lparr>Name = ''refresh_token'', Value = refreshToken,
                   Expires = now e 2 + DefaultRefreshJWTExpiry e, Path = ''/''\<rparr>,
                tr @ [(Set_Claims (accessClaims e uid), True),
                      (Set_Claims (refreshClaims e uid), True)], True)))"

subsection \<open>signup (api.go 44-204)\<close>

definition new_user :: "env \<Rightarrow> string \<Rightarrow> string \<Rightarrow> string \<Rightarrow> string \<Rightarrow> string \<Rightarrow> user" where
  "new_user e uname mail hashed newToken newUUID =
     \<lparr>username = uname, email = mail, hashedPassword = hashed, verifiedToken = newToken,
      userId = newUUID, verified = verified_default e, resetToken = resetToken_default e,
      password = password_default e\<rparr>"

definition signup_tail ::
  "env \<Rightarrow> user list \<Rightarrow> string \<Rightarrow> string \<Rightarrow> string \<Rightarrow> (call \<times> bool) list \<Rightarrow> result" where
  "signup_tail e st mail newToken newUUID tr =
     (case issue_sessions e newUUID w0 tr of
        (w, tr', ok) \<Rightarrow>
          if \<not> ok then reply st w tr'
          else if \<not> SendEmail e mail ''Email Verification'' ''user-signup.html'' newToken
          then reply st (http_Error w ''error sending verification email'' 500)
                 (tr' @ [(Send_Email mail ''Email Verification'' ''user-signup.html'' newToken, False)])
          else reply st (WriteHeader w 201)
                 (tr' @ [(Send_Email mail ''Email Verification'' ''user-signup.html'' newToken, True)]))"

definition signup :: "env \<Rightarrow> user list \<Rightarrow> request \<Rightarrow> result" where
  "signup e st r =
     (if meth r = OPTIONS then reply st w0 []
      else if db_error e UsernameExists \<noteq> None
      then reply st (http_Error w0 ''error checking if username exists'' 500)
             [(DB UsernameExists, False)]
      else if list_ex (\<lambda>u. username u = query_Get r ''username'') st
      then reply st (http_Error w0 ''this username is taken'' 409) [(DB UsernameExists, False)]
      else if db_error e EmailExists \<noteq> None
      then reply st (http_Error w0 ''error checking if email exists'' 500)
             [(DB UsernameExists, True), (DB EmailExists, False)]
      else if list_ex (\<lambda>u. email u = query_Get r ''email'') st
      then reply st (http_Error w0 ''this email is taken'' 409)
             [(DB UsernameExists, True), (DB EmailExists, False)]
      else
        (case GenerateFromPassword e (query_Get r ''password'') of
           None \<Rightarrow>
             reply st (http_Error w0 ''error encrypting password'' 500)
               [(DB UsernameExists, True), (DB EmailExists, True), (Generate_Hash, False)]
         | Some hashed \<Rightarrow>
             if \<not> CompareHashAndPassword e hashed (query_Get r ''password'')
             then reply st (http_Error w0 ''hashed password does not match original'' 409)
                    [(DB UsernameExists, True), (DB EmailExists, True), (Generate_Hash, True),
                     (Compare_Hash, False)]
             else if db_error e InsertUser \<noteq> None
             then reply st (http_Error w0 ''issue storing credentials'' 500)
                    [(DB UsernameExists, True), (DB EmailExists, True), (Generate_Hash, True),
                     (Compare_Hash, True), (New_UUID, True), (Random_Token, True),
                     (DB InsertUser, False)]
             else signup_tail e
                    (st @ [new_user e (query_Get r ''username'') (query_Get r ''email'') hashed
                             (GetRandomBase62 e verifyTokenSize) (uuid_New e)])
                    (query_Get r ''email'') (GetRandomBase62 e verifyTokenSize) (uuid_New e)
                    [(DB UsernameExists, True), (DB EmailExists, True), (Generate_Hash, True),
                     (Compare_Hash, True), (New_UUID, True), (Random_Token, True),
                     (DB InsertUser, True)]))"

subsection \<open>signin (api.go 206-315)\<close>

definition signin :: "env \<Rightarrow> user list \<Rightarrow> request \<Rightarrow> result" where
  "signin e st r =
     (if meth r = OPTIONS then reply st w0 []
      else
        (case body r of
           None \<Rightarrow> reply st (http_Error w0 ''issue storing credentials'' 500) []
         | Some credentials \<Rightarrow>
             if db_error e SelectByEmail \<noteq> None
             then reply st (http_Error w0 ''error retrieving information with this email'' 500)
                    [(DB SelectByEmail, False)]
             else
               (case find (\<lambda>u. email u = Email credentials) st of
                  None \<Rightarrow>
                    reply st (http_Error w0 ''this email is not associated with an account'' 404)
                      [(DB SelectByEmail, False)]
                | Some u \<Rightarrow>
                    if \<not> CompareHashAndPassword e (hashedPassword u) (Password credentials)
                    then reply st (http_Error w0 ''incorrect password'' 500)
                           [(DB SelectByEmail, True), (Compare_Hash, False)]
                    else
                      (case issue_sessions e (userId u) w0
                              [(DB SelectByEmail, True), (Compare_Hash, True)] of
                         (w, tr, ok) \<Rightarrow> reply st w tr))))"

subsection \<open>logout (api.go 317-333)\<close>

definition logout :: "env \<Rightarrow> user list \<Rightarrow> request \<Rightarrow> result" where
  "logout e st r =
     (if meth r = OPTIONS then reply st w0 []
      else
        reply st
          (SetCookie
             (SetCookie w0
                \<lparr>Name = ''access_token'', Value = [],
                 Expires = now e 0 + (- DefaultAccessJWTExpiry e), Path = []\<rparr>)
             \<lparr>Name = ''refresh_token'', Value = [],
              Expires = now e 0 + (- DefaultRefreshJWTExpiry e), Path = []\<rparr>)
          [])"

subsection \<open>verify (api.go 335-370)\<close>

text \<open>
  \<^verbatim>\<open>DB.Exec\<close> returns a result and an error. The result is nil exactly when there is an
  error: when the statement fails, or when the driver rejects the \<^verbatim>\<open>[]string\<close> argument.
  An UPDATE that matches no row returns a result (zero rows affected) and no error.
\<close>

definition Exec_UpdateVerified ::
  "env \<Rightarrow> user list \<Rightarrow> string list \<Rightarrow> nat option \<times> string option \<times> user list" where
  "Exec_UpdateVerified e st token =
     (case db_error e UpdateVerified of
        Some err \<Rightarrow> (None, Some err, st)
      | None \<Rightarrow>
          (case bind_strings e token of
             None \<Rightarrow>
               (None,
                Some ''sql: converting argument $2 type: unsupported type []string, a slice of string'',
                st)
           | Some v \<Rightarrow>
               (Some (length (filter (\<lambda>u. verifiedToken u = v) st)), None,
                map (\<lambda>u. if verifiedToken u = v then u\<lparr>verified := True\<rparr> else u) st)))"

definition verify :: "env \<Rightarrow> user list \<Rightarrow> request \<Rightarrow> result" where
  "verify e st r =
     (if meth r = OPTIONS then reply st w0 []
      else if query r ''token'' = [] \<or> length (hd (query r ''token'')) < 1
      then reply st (http_Error w0 ''url Param 'token' is missing'' 500) []
      else
        (case Exec_UpdateVerified e st (query r ''token'') of
           (rows, err, st') \<Rightarrow>
             if rows = None
             then reply st' (http_Error w0 ''invalid token'' 404) [(DB UpdateVerified, False)]
             else if err \<noteq> None
             then reply st' (http_Error w0 ''issue storing credentials'' 400)
                    [(DB UpdateVerified, False)]
             else reply st' w0 [(DB UpdateVerified, True)]))"

subsection \<open>sendReset (api.go 373-428)\<close>

definition sendReset :: "env \<Rightarrow> user list \<Rightarrow> request \<Rightarrow> result" where
  "sendReset e st r =
     (if meth r = OPTIONS then reply st w0 []
      else
        (case body r of
           None \<Rightarrow> reply st (http_Error w0 ''issue retrieving email'' 500) []
         | Some credentials \<Rightarrow>
             if Email credentials = []
             then nil_panic st (http_Error w0 ''invalid email address'' 406) []
             else if db_error e UpdateResetToken \<noteq> None
             then reply st (http_Error w0 ''error setting resetToken'' 500)
                    [(Random_Token, True), (DB UpdateResetToken, False)]
             else if \<not> SendEmail e (Email credentials) ''BearChat Password Reset''
                          ''password-reset.html'' (GetRandomBase62 e resetTokenSize)
             then reply
                    (map (\<lambda>u. if email u = Email credentials
                               then u\<lparr>resetToken := Some (GetRandomBase62 e resetTokenSize)\<rparr>
                               else u) st)
                    (http_Error w0 ''error sending verification email'' 500)
                    [(Random_Token, True), (DB UpdateResetToken, True),
                     (Send_Email (Email credentials) ''BearChat Password Reset''
                        ''password-reset.html'' (GetRandomBase62 e resetTokenSize), False)]
             else reply
                    (map (\<lambda>u. if email u = Email credentials
                               then u\<lparr>resetToken := Some (GetRandomBase62 e resetTokenSize)\<rparr>
                               else u) st)
                    w0
                    [(Random_Token, True), (DB UpdateResetToken, True),
                     (Send_Email (Email credentials) ''BearChat Password Reset''
                        ''password-reset.html'' (GetRandomBase62 e resetTokenSize), True)]))"

subsection \<open>resetPassword (api.go 430-521)\<close>

definition resetPassword :: "env \<Rightarrow> user list \<Rightarrow> request \<Rightarrow> result" where
  "resetPassword e st r =
     (if meth r = OPTIONS then reply st w0 []
      else
        (case body r of
           None \<Rightarrow> reply st (http_Error w0 ''issue retrieving credentials'' 500) []
         | Some credentials \<Rightarrow>
             if Username credentials = []
             then nil_panic st (http_Error w0 ''invalid username'' 406) []
             else if Email credentials = []
             then nil_panic st (http_Error w0 ''invalid email address'' 406) []
             else if Password credentials = []
             then nil_panic st (http_Error w0 ''invalid password'' 406) []
             else if db_error e PairExists \<noteq> None
             then reply st (http_Error w0 ''issue retrieving username and token pair'' 500)
                    [(DB PairExists, False)]
             else if \<not> list_ex (\<lambda>u. username u = Username credentials
                                     \<and> resetToken u = Some (query_Get r ''token'')) st
             then nil_panic st (http_Error w0 ''username and token pair does not exist'' 404)
                    [(DB PairExists, False)]
             else
               (case GenerateFromPassword e (Password credentials) of
                  None \<Rightarrow>
                    nil_panic st (http_Error w0 ''error encrypting password'' 500)
                      [(DB PairExists, True), (Generate_Hash, False)]
                | Some hashed \<Rightarrow>
                    (case db_error e UpdatePassword of
                       Some err \<Rightarrow>
                         reply st (http_Error w0 err 400)
                           [(DB PairExists, True), (Generate_Hash, True),
                            (DB UpdatePassword, False)]
                     | None \<Rightarrow>
                         reply
                           (map (\<lambda>u. if email u = Email credentials
                                      then u\<lparr>resetToken := Some [], password := Some hashed\<rparr>
                                      else u) st)
                           w0
                           [(DB PairExists, True), (Generate_Hash, True),
                            (DB UpdatePassword, True)]))))"

subsection \<open>Tokens issued, as read from the trace\<close>

fun issued :: "call \<times> bool \<Rightarrow> AuthClaims list" where
  "issued (Set_Claims c, True) = [c]"
| "issued other = []"

definition issued_claims :: "result \<Rightarrow> AuthClaims list" where
  "issued_claims R = concat (map issued (trace R))"

subsection \<open>Sample data for the closed theorems\<close>

text \<open>
  A sample environment: the clock is read one microsecond apart and its second reading
  falls on a new second; the access token lives 15 minutes and the refresh token 7 days;
  the signer and the hash tag their input; no statement fails; the driver rejects every
  \<^verbatim>\<open>[]string\<close> argument, as the default converter of database/sql does.
  \<open>env_lenient\<close> differs in the driver only: it binds a one-element slice as its element.
\<close>

definition env0 :: env where
  "env0 =
     \<lparr>now = (\<lambda>k. 1700000000999999000 + int k * 1000),
      DefaultAccessJWTExpiry = 900000000000,
      DefaultRefreshJWTExpiry = 604800000000000,
      defaultJWTIssuer = ''auth-service'',
      setClaims = (\<lambda>c. Some (Subject c @ ''.'' @ UserID c)),
      GenerateFromPassword = (\<lambda>p. Some (''$2a$10$'' @ p)),
      CompareHashAndPassword = (\<lambda>h p. h = ''$2a$10$'' @ p),
      uuid_New = ''uuid-1'',
      GetRandomBase62 = (\<lambda>n. take n ''a1B2c3D4e5'') ,
      SendEmail = (\<lambda>to subject template token. True),
      db_error = (\<lambda>s. None),
      bind_strings = (\<lambda>ts. None),
      verified_default = False,
      resetToken_default = None,
      password_default = None\<rparr>"

definition env_lenient :: env where
  "env_lenient =
     env0\<lparr>bind_strings :=
            (\<lambda>ts. case ts of [] \<Rightarrow> None | t # ts' \<Rightarrow> (if ts' = [] then Some t else None))\<rparr>"

definition post_request :: "(string \<times> string) list \<Rightarrow> Credentials option \<Rightarrow> request" where
  "post_request kvs b =
     \<lparr>meth = POST, query = (\<lambda>k. map snd (filter (\<lambda>kv. fst kv = k) kvs)), body = b,
      req_cookies = []\<rparr>"

definition signup_alice :: request where
  "signup_alice =
     post_request [(''username'', ''alice''), (''email'', ''alice@x.com''), (''password'', ''pw1'')]
       None"

definition signup_alice_again :: request where
  "signup_alice_again =
     post_request [(''username'', ''alice''), (''email'', ''other@x.com''), (''password'', ''pw9'')]
       None"

definition signin_alice :: "string \<Rightarrow> request" where
  "signin_alice pw =
     post_request [] (Some \<lparr>Username = [], Email = ''alice@x.com'', Password = pw\<rparr>)"

definition reset_request :: "string \<Rightarrow> request" where
  "reset_request mail = post_request [] (Some \<lparr>Username = [], Email = mail, Password = []\<rparr>)"

definition complete_reset :: "string \<Rightarrow> string \<Rightarrow> string \<Rightarrow> string \<Rightarrow> request" where
  "complete_reset uname mail pw tok =
     post_request [(''token'', tok)] (Some \<lparr>Username = uname, Email = mail, Password = pw\<rparr>)"

definition verify_request :: "string \<Rightarrow> request" where
  "verify_request tok = post_request [(''token'', tok)] None"

definition alice :: user where
  "alice =
     \<lparr>username = ''alice'', email = ''alice@x.com'', hashedPassword = ''$2a$10$pw1'',
      verifiedToken = ''a1B2c3'', userId = ''uuid-1'', verified = False, resetToken = None,
      password = None\<rparr>"

definition bob :: user where
  "bob =
     \<lparr>username = ''bob'', email = ''bob@x.com'', hashedPassword = ''$2a$10$pwB'',
      verifiedToken = ''Zz9Yy8'', userId = ''uuid-2'', verified = True, resetToken = None,
      password = None\<rparr>"

section \<open>Properties\<close>

lemmas sample_defs =
  env0_def env_lenient_def post_request_def signup_alice_def signup_alice_again_def
  signin_alice_def reset_request_def complete_reset_def verify_request_def alice_def bob_def
  query_Get_def

lemmas handler_defs =
  signup_def signup_tail_def signin_def logout_def verify_def Exec_UpdateVerified_def
  sendReset_def resetPassword_def issue_sessions_def accessClaims_def refreshClaims_def
  new_user_def reply_def nil_panic_def http_Error_def SetCookie_def WriteHeader_def w0_def
  Unix_def verifyTokenSize_def resetTokenSize_def issued_claims_def

subsection \<open>Helper lemmas\<close>

lemma update_where_none:
  "\<not> list_ex P st \<Longrightarrow> map (\<lambda>u. if P u then f u else u) st = st"
  by (induction st) auto

lemma issue_sessions_cases:
  "issue_sessions e uid w tr = (w', tr', ok) \<Longrightarrow>
     (tr' = tr @ [(Set_Claims (accessClaims e uid), False)] \<and> \<not> ok) \<or>
     (tr' = tr @ [(Set_Claims (accessClaims e uid), True),
                  (Set_Claims (refreshClaims e uid), False)] \<and> \<not> ok) \<or>
     (tr' = tr @ [(Set_Claims (accessClaims e uid), True),
                  (Set_Claims (refreshClaims e uid), True)] \<and> ok)"
  by (auto simp: issue_sessions_def split: option.splits)

text \<open>resetPassword either leaves the table as it is or rewrites the two columns
  \<^verbatim>\<open>resetToken\<close> and \<^verbatim>\<open>password\<close> of the rows with the request's email.\<close>

lemma resetPassword_store_cases:
  "store (resetPassword e st r) = st \<or>
   (\<exists>m h. store (resetPassword e st r) =
      map (\<lambda>u. if email u = m then u\<lparr>resetToken := Some [], password := Some h\<rparr> else u) st)"
  unfolding resetPassword_def reply_def nil_panic_def
  by (auto split: option.splits)

lemma find_email_after_update:
  "find (\<lambda>u. email u = x)
     (map (\<lambda>u. if email u = m then u\<lparr>resetToken := a, password := b\<rparr> else u) st) =
   map_option (\<lambda>u. if email u = m then u\<lparr>resetToken := a, password := b\<rparr> else u)
     (find (\<lambda>u. email u = x) st)"
  by (induction st) auto

lemma signin_reads_two_columns:
  assumes "map_option (\<lambda>u. (hashedPassword u, userId u)) (find (\<lambda>u. email u = x) st') =
           map_option (\<lambda>u. (hashedPassword u, userId u)) (find (\<lambda>u. email u = x) st)"
    and "body r = Some c" and "Email c = x"
  shows "resp (signin e st' r) = resp (signin e st r)"
  using assms
  by (cases "find (\<lambda>u. email u = x) st'"; cases "find (\<lambda>u. email u = x) st")
     (auto simp: signin_def reply_def split: prod.splits)

text \<open>No password reset, whatever its request and outcome, changes the answer of any
  later signin: resetPassword never writes the column signin reads.\<close>

lemma signin_after_resetPassword:
  "resp (signin e (store (resetPassword e' st r')) r) = resp (signin e st r)"
proof (cases "body r")
  case None
  then show ?thesis by (simp add: signin_def reply_def)
next
  case (Some c)
  from resetPassword_store_cases [of e' st r'] show ?thesis
  proof
    assume "store (resetPassword e' st r') = st"
    then show ?thesis by simp
  next
    assume "\<exists>m h. store (resetPassword e' st r') =
      map (\<lambda>u. if email u = m then u\<lparr>resetToken := Some [], password := Some h\<rparr> else u) st"
    then obtain m h where s: "store (resetPassword e' st r') =
      map (\<lambda>u. if email u = m then u\<lparr>resetToken := Some [], password := Some h\<rparr> else u) st"
      by blast
    have "map_option (\<lambda>u. (hashedPassword u, userId u))
            (find (\<lambda>u. email u = Email c) (store (resetPassword e' st r'))) =
          map_option (\<lambda>u. (hashedPassword u, userId u)) (find (\<lambda>u. email u = Email c) st)"
      unfolding s find_email_after_update
      by (cases "find (\<lambda>u. email u = Email c) st") auto
    then show ?thesis using Some by (rule signin_reads_two_columns) simp
  qed
qed

text \<open>verify with a token that the driver binds and that no row carries: the UPDATE runs,
  touches nothing, and the handler answers 200.\<close>

lemma verify_unmatched_token:
  assumes "meth r = POST"
    and "query r ''token'' = t # ts" and "t \<noteq> []"
    and "db_error e UpdateVerified = None"
    and "bind_strings e (t # ts) = Some v"
    and "\<not> list_ex (\<lambda>u. verifiedToken u = v) st"
  shows "verify e st r = reply st w0 [(DB UpdateVerified, True)]"
  using assms by (simp add: verify_def Exec_UpdateVerified_def update_where_none)

text \<open>verify under a driver that rejects the slice: every token, also the right one, is
  answered 404 and no row changes.\<close>

lemma verify_rejected_argument:
  assumes "meth r = POST"
    and "query r ''token'' = t # ts" and "t \<noteq> []"
    and "bind_strings e (t # ts) = None"
  shows "verify e st r = reply st (http_Error w0 ''invalid token'' 404) [(DB UpdateVerified, False)]"
  using assms by (simp add: verify_def Exec_UpdateVerified_def split: option.splits)

subsection \<open>C1: the reset scenario\<close>

text \<open>
  C1. The scenario of the specification, run on the sample environment: signup of alice
  with \<open>pw1\<close> answers 201 and stores her row; signin with \<open>pw1\<close> answers 200 and with a wrong
  password fails; the reset request stores the token \<open>a1B2c3\<close>; the completion with that
  token and \<open>pw2\<close> answers 200, clears the token and writes the hash of \<open>pw2\<close> into the
  column \<^verbatim>\<open>password\<close>. The column \<^verbatim>\<open>hashedPassword\<close> still holds the hash of \<open>pw1\<close>, so
  afterwards signin with \<open>pw1\<close> still answers 200 with both cookies, and signin with \<open>pw2\<close>
  fails with "incorrect password": the opposite of what the scenario ends with.
\<close>

theorem reset_scenario_keeps_old_password:
  "status (resp (signup env0 [] signup_alice)) = 201
   \<and> store (signup env0 [] signup_alice) = [alice]
   \<and> status (resp (signin env0 [alice] (signin_alice ''pw1''))) = 200
   \<and> resp (signin env0 [alice] (signin_alice ''wrong'')) = http_Error w0 ''incorrect password'' 500
   \<and> resp (sendReset env0 [alice] (reset_request ''alice@x.com'')) = w0
   \<and> store (sendReset env0 [alice] (reset_request ''alice@x.com''))
       = [alice\<lparr>resetToken := Some ''a1B2c3''\<rparr>]
   \<and> resp (resetPassword env0 [alice\<lparr>resetToken := Some ''a1B2c3''\<rparr>]
             (complete_reset ''alice'' ''alice@x.com'' ''pw2'' ''a1B2c3'')) = w0
   \<and> \<not> panicked (resetPassword env0 [alice\<lparr>resetToken := Some ''a1B2c3''\<rparr>]
             (complete_reset ''alice'' ''alice@x.com'' ''pw2'' ''a1B2c3''))
   \<and> store (resetPassword env0 [alice\<lparr>resetToken := Some ''a1B2c3''\<rparr>]
             (complete_reset ''alice'' ''alice@x.com'' ''pw2'' ''a1B2c3''))
       = [alice\<lparr>resetToken := Some [], password := Some ''$2a$10$pw2''\<rparr>]
   \<and> status (resp (signin env0 [alice\<lparr>resetToken := Some [], password := Some ''$2a$10$pw2''\<rparr>]
             (signin_alice ''pw1''))) = 200
   \<and> map Name (cookies (resp (signin env0
             [alice\<lparr>resetToken := Some [], password := Some ''$2a$10$pw2''\<rparr>]
             (signin_alice ''pw1'')))) = [''access_token'', ''refresh_token'']
   \<and> resp (signin env0 [alice\<lparr>resetToken := Some [], password := Some ''$2a$10$pw2''\<rparr>]
             (signin_alice ''pw2'')) = http_Error w0 ''incorrect password'' 500"
  by (simp add: sample_defs handler_defs)

subsection \<open>C2: verify\<close>

text \<open>
  C2. On the table holding alice alone (verification token \<open>a1B2c3\<close>, not verified):
  when the driver rejects the slice that verify hands to \<^verbatim>\<open>DB.Exec\<close>, a verify request
  with alice's own token is answered 404 "invalid token" and alice stays unverified; when
  the driver binds the slice, her own token verifies her, but a request with the token
  \<open>zzzzzz\<close>, which no row carries, is answered 200 with an empty body, not 404 (the table
  is unchanged). Under either driver one half of the claim fails.
\<close>

theorem verify_token_divergence:
  "verify env0 [alice] (verify_request ''a1B2c3'')
     = reply [alice] (http_Error w0 ''invalid token'' 404) [(DB UpdateVerified, False)]
   \<and> store (verify env_lenient [alice] (verify_request ''a1B2c3'')) = [alice\<lparr>verified := True\<rparr>]
   \<and> verify env_lenient [alice] (verify_request ''zzzzzz'')
       = reply [alice] w0 [(DB UpdateVerified, True)]
   \<and> status (resp (verify env_lenient [alice] (verify_request ''zzzzzz''))) = 200"
  by (simp add: sample_defs handler_defs)

subsection \<open>C3: signup with a taken username\<close>

text \<open>
  C3. When the table holds a row with the request's username and the lookup itself does
  not fail, a (POST) signup is answered 409 "this username is taken", whatever its email,
  and the table is unchanged; the only call made is the username lookup.
\<close>

theorem signup_username_taken:
  assumes "meth r = POST"
    and "db_error e UsernameExists = None"
    and "\<exists>u\<in>set st. username u = query_Get r ''username''"
  shows "resp (signup e st r) = http_Error w0 ''this username is taken'' 409
       \<and> status (resp (signup e st r)) = 409
       \<and> store (signup e st r) = st
       \<and> trace (signup e st r) = [(DB UsernameExists, False)]"
  using assms by (simp add: signup_def reply_def list_ex_iff http_Error_def)

theorem signup_username_taken_witness:
  "resp (signup env0 [alice] signup_alice_again) = http_Error w0 ''this username is taken'' 409
   \<and> store (signup env0 [alice] signup_alice_again) = [alice]"
  using signup_username_taken [of signup_alice_again env0 "[alice]"]
  by (simp add: sample_defs)

subsection \<open>C4: when a reset completes\<close>

text \<open>
  C4. For a (POST) resetPassword request whose username, email and password are not
  empty, when neither statement fails and the password can be hashed: the handler returns
  without an error response (status 200, no panic) if and only if some row has the
  request's username and its reset token; and when no row has, the response is 404
  "username and token pair does not exist" and the table is unchanged.
\<close>

theorem resetPassword_iff_pair:
  assumes "meth r = POST"
    and "body r = Some c"
    and "Username c \<noteq> []" and "Email c \<noteq> []" and "Password c \<noteq> []"
    and "db_error e PairExists = None"
    and "db_error e UpdatePassword = None"
    and "GenerateFromPassword e (Password c) \<noteq> None"
  shows "((resp (resetPassword e st r) = w0 \<and> \<not> panicked (resetPassword e st r))
           \<longleftrightarrow> (\<exists>u\<in>set st. username u = Username c
                          \<and> resetToken u = Some (query_Get r ''token'')))
       \<and> (\<not> (\<exists>u\<in>set st. username u = Username c
                          \<and> resetToken u = Some (query_Get r ''token''))
           \<longrightarrow> store (resetPassword e st r) = st
               \<and> resp (resetPassword e st r)
                   = http_Error w0 ''username and token pair does not exist'' 404)"
  using assms
  by (auto simp: resetPassword_def reply_def nil_panic_def list_ex_iff http_Error_def w0_def)

theorem resetPassword_iff_pair_witness:
  "resp (resetPassword env0 [alice\<lparr>resetToken := Some ''a1B2c3''\<rparr>]
           (complete_reset ''alice'' ''alice@x.com'' ''pw2'' ''a1B2c3'')) = w0
   \<and> resp (resetPassword env0 [alice\<lparr>resetToken := Some ''a1B2c3''\<rparr>]
           (complete_reset ''alice'' ''alice@x.com'' ''pw2'' ''XXXXXX''))
       = http_Error w0 ''username and token pair does not exist'' 404
   \<and> store (resetPassword env0 [alice\<lparr>resetToken := Some ''a1B2c3''\<rparr>]
           (complete_reset ''alice'' ''alice@x.com'' ''pw2'' ''XXXXXX''))
       = [alice\<lparr>resetToken := Some ''a1B2c3''\<rparr>]"
  using resetPassword_iff_pair [of "complete_reset ''alice'' ''alice@x.com'' ''pw2'' ''a1B2c3''"
      "\<lparr>Username = ''alice'', Email = ''alice@x.com'', Password = ''pw2''\<rparr>" env0
      "[alice\<lparr>resetToken := Some ''a1B2c3''\<rparr>]"]
    resetPassword_iff_pair [of "complete_reset ''alice'' ''alice@x.com'' ''pw2'' ''XXXXXX''"
      "\<lparr>Username = ''alice'', Email = ''alice@x.com'', Password = ''pw2''\<rparr>" env0
      "[alice\<lparr>resetToken := Some ''a1B2c3''\<rparr>]"]
  by (simp add: sample_defs)

subsection \<open>C5: signin with a wrong password\<close>

text \<open>
  C5. For a (POST) signin whose email is that of a stored identity (the lookup returning
  no error) and whose password does not compare equal to the stored hash: the response is
  the error "incorrect password" (which the handler sends with status 500), it carries no
  cookie, the signer is never called, so no access or refresh token is issued, and the
  table is unchanged.
\<close>

theorem signin_wrong_password:
  assumes "meth r = POST"
    and "body r = Some c"
    and "db_error e SelectByEmail = None"
    and "find (\<lambda>u. email u = Email c) st = Some u"
    and "\<not> CompareHashAndPassword e (hashedPassword u) (Password c)"
  shows "resp (signin e st r) = http_Error w0 ''incorrect password'' 500
       \<and> cookies (resp (signin e st r)) = []
       \<and> trace (signin e st r) = [(DB SelectByEmail, True), (Compare_Hash, False)]
       \<and> issued_claims (signin e st r) = []
       \<and> store (signin e st r) = st"
  using assms by (simp add: signin_def reply_def http_Error_def w0_def issued_claims_def)

theorem signin_wrong_password_witness:
  "resp (signin env0 [alice] (signin_alice ''wrong'')) = http_Error w0 ''incorrect password'' 500
   \<and> cookies (resp (signin env0 [alice] (signin_alice ''wrong''))) = []
   \<and> issued_claims (signin env0 [alice] (signin_alice ''wrong'')) = []"
  using signin_wrong_password [of "signin_alice ''wrong''"
      "\<lparr>Username = [], Email = ''alice@x.com'', Password = ''wrong''\<rparr>" env0 "[alice]" alice]
  by (simp add: sample_defs handler_defs)

subsection \<open>C6: the order of the steps of signup\<close>

text \<open>
  C6. The calls a signup makes are always an initial part of one fixed sequence: the
  username lookup, the email lookup, the hashing of the password and the comparison of the
  hash with it, the new id and verification token, the insert, the signing of the access
  claims, the signing of the refresh claims, the verification email. Every call but the
  last one made succeeded: once a step fails, no later step runs.
\<close>

theorem signup_step_order:
  "prefix (map fst (trace (signup e st r)))
     [DB UsernameExists, DB EmailExists, Generate_Hash, Compare_Hash, New_UUID, Random_Token,
      DB InsertUser, Set_Claims (accessClaims e (uuid_New e)),
      Set_Claims (refreshClaims e (uuid_New e)),
      Send_Email (query_Get r ''email'') ''Email Verification'' ''user-signup.html''
        (GetRandomBase62 e verifyTokenSize)]
   \<and> list_all snd (butlast (trace (signup e st r)))"
  by (auto simp: signup_def signup_tail_def reply_def split: option.splits prod.splits
      dest!: issue_sessions_cases)

subsection \<open>C7: the claims of an issued token\<close>

text \<open>
  C7, as stated, fails: in the sample environment the two readings of the clock that
  signup takes for the access token fall in different seconds, and the token it issues
  expires at 1700000900 while it is issued at 1700000001, which is not 900 seconds (the
  access lifetime) earlier.
\<close>

theorem issued_at_counterexample:
  "issued_claims (signup env0 [] signup_alice) =
     [\<lparr>UserID = ''uuid-1'', Subject = ''access'', ExpiresAt = 1700000900,
       Issuer = ''auth-service'', IssuedAt = 1700000001\<rparr>,
      \<lparr>UserID = ''uuid-1'', Subject = ''refresh'', ExpiresAt = 1700604801,
       Issuer = ''auth-service'', IssuedAt = 1700000001\<rparr>]
   \<and> ExpiresAt (hd (issued_claims (signup env0 [] signup_alice)))
       \<noteq> IssuedAt (hd (issued_claims (signup env0 [] signup_alice)))
           + DefaultAccessJWTExpiry env0 div 1000000000"
  by (simp add: sample_defs handler_defs)

text \<open>
  C7, amended. The tokens signup issues are, in this order, the access claims and the
  refresh claims for the new identity's id, or an initial part of that list; those of
  signin are the same for the id of the first row with the request's email, and none when
  there is no such row or no body. The access claims have subject access, the fixed
  issuer, expires-at the second of (first clock reading + access lifetime) and issued-at
  the second of the second clock reading; the refresh claims have subject refresh, the
  fixed issuer, expires-at the second of (third reading + refresh lifetime) and issued-at
  the second of the fourth reading. As many cookies are set as tokens are issued.
\<close>

theorem issued_claims_shape:
  "prefix (issued_claims (signup e st r))
     [accessClaims e (uuid_New e), refreshClaims e (uuid_New e)]
   \<and> (case body r of
         None \<Rightarrow> issued_claims (signin e st r) = []
       | Some c \<Rightarrow>
           (case find (\<lambda>u. email u = Email c) st of
              None \<Rightarrow> issued_claims (signin e st r) = []
            | Some u \<Rightarrow>
                prefix (issued_claims (signin e st r))
                  [accessClaims e (userId u), refreshClaims e (userId u)]))
   \<and> accessClaims e uid =
        \<lparr>UserID = uid, Subject = ''access'',
         ExpiresAt = (now e 0 + DefaultAccessJWTExpiry e) div 1000000000,
         Issuer = defaultJWTIssuer e, IssuedAt = now e 1 div 1000000000\<rparr>
   \<and> refreshClaims e uid =
        \<lparr>UserID = uid, Subject = ''refresh'',
         ExpiresAt = (now e 2 + DefaultRefreshJWTExpiry e) div 1000000000,
         Issuer = defaultJWTIssuer e, IssuedAt = now e 3 div 1000000000\<rparr>
   \<and> length (cookies (resp (signup e st r))) = length (issued_claims (signup e st r))
   \<and> length (cookies (resp (signin e st r))) = length (issued_claims (signin e st r))"
proof -
  have a: "prefix (issued_claims (signup e st r))
     [accessClaims e (uuid_New e), refreshClaims e (uuid_New e)]"
    by (auto simp: signup_def signup_tail_def reply_def issued_claims_def
        split: option.splits prod.splits dest!: issue_sessions_cases)
  have b: "(case body r of
         None \<Rightarrow> issued_claims (signin e st r) = []
       | Some c \<Rightarrow>
           (case find (\<lambda>u. email u = Email c) st of
              None \<Rightarrow> issued_claims (signin e st r) = []
            | Some u \<Rightarrow>
                prefix (issued_claims (signin e st r))
                  [accessClaims e (userId u), refreshClaims e (userId u)]))"
    by (auto simp: signin_def reply_def issued_claims_def
        split: option.splits prod.splits dest!: issue_sessions_cases)
  have c: "length (cookies (resp (signup e st r))) = length (issued_claims (signup e st r))"
    by (auto simp: signup_def signup_tail_def reply_def issued_claims_def issue_sessions_def
        http_Error_def SetCookie_def WriteHeader_def w0_def split: option.splits)
  have d: "length (cookies (resp (signin e st r))) = length (issued_claims (signin e st r))"
    by (auto simp: signin_def reply_def issued_claims_def issue_sessions_def
        http_Error_def SetCookie_def w0_def split: option.splits)
  show ?thesis using a b c d by (simp add: accessClaims_def refreshClaims_def Unix_def)
qed

subsection \<open>C8: logout\<close>

text \<open>
  C8. With positive access and refresh lifetimes, a (POST) logout always answers 200 and
  sets exactly two cookies, access_token and refresh_token, with an empty value and an
  expiry of the clock reading minus the respective lifetime, so strictly before that
  reading. It does not depend on the table or on the cookies presented and leaves the
  table unchanged, so a second logout has the same result as the first, and at any later
  time replaces the same two cookies by empty ones again.
\<close>

theorem logout_expired:
  assumes "meth r = POST"
    and "0 < DefaultAccessJWTExpiry e" and "0 < DefaultRefreshJWTExpiry e"
  shows "status (resp (logout e st r)) = 200
       \<and> \<not> panicked (logout e st r)
       \<and> cookies (resp (logout e st r)) =
           [\<lparr>Name = ''access_token'', Value = [],
             Expires = now e 0 - DefaultAccessJWTExpiry e, Path = []\<rparr>,
            \<lparr>Name = ''refresh_token'', Value = [],
             Expires = now e 0 - DefaultRefreshJWTExpiry e, Path = []\<rparr>]
       \<and> list_all (\<lambda>c. Expires c < now e 0) (cookies (resp (logout e st r)))
       \<and> store (logout e st r) = st
       \<and> resp (logout e st' (r\<lparr>req_cookies := cs\<rparr>)) = resp (logout e st r)
       \<and> logout e (store (logout e st r)) r = logout e st r
       \<and> store (logout e' (store (logout e st r)) r) = st
       \<and> map Name (cookies (resp (logout e' (store (logout e st r)) r)))
           = map Name (cookies (resp (logout e st r)))
       \<and> map Value (cookies (resp (logout e' (store (logout e st r)) r)))
           = map Value (cookies (resp (logout e st r)))"
  using assms by (simp add: logout_def reply_def SetCookie_def w0_def)

theorem logout_expired_witness:
  "cookies (resp (logout env0 [alice] (post_request [] None))) =
     [\<lparr>Name = ''access_token'', Value = [], Expires = 1699999100999999000, Path = []\<rparr>,
      \<lparr>Name = ''refresh_token'', Value = [], Expires = 1699395200999999000, Path = []\<rparr>]
   \<and> status (resp (logout env0 [alice] (post_request [] None))) = 200
   \<and> logout env0 (store (logout env0 [alice] (post_request [] None))) (post_request [] None)
       = logout env0 [alice] (post_request [] None)"
  using logout_expired [of "post_request [] None" env0 "[alice]"]
  by (simp add: sample_defs handler_defs)

subsection \<open>C9: a reset request does not tell whether the account exists\<close>

text \<open>
  C9. For a (POST) sendReset with a non-empty email, when the UPDATE and the email both
  succeed, the response is the plain 200 whatever the table holds: the response and the
  calls made (among them the email sent to the address) are the same for any two tables.
  When no row has that email the table is unchanged.
\<close>

theorem sendReset_hides_existence:
  assumes "meth r = POST"
    and "body r = Some c"
    and "Email c \<noteq> []"
    and "db_error e UpdateResetToken = None"
    and "SendEmail e (Email c) ''BearChat Password Reset'' ''password-reset.html''
           (GetRandomBase62 e resetTokenSize)"
  shows "resp (sendReset e st r) = w0
       \<and> \<not> panicked (sendReset e st r)
       \<and> resp (sendReset e st' r) = resp (sendReset e st r)
       \<and> trace (sendReset e st' r) = trace (sendReset e st r)
       \<and> (\<not> (\<exists>u\<in>set st. email u = Email c) \<longrightarrow> store (sendReset e st r) = st)"
  using assms
  by (auto simp: sendReset_def reply_def list_ex_iff update_where_none)

theorem sendReset_hides_existence_witness:
  "resp (sendReset env0 [alice] (reset_request ''nobody@x.com'')) = w0
   \<and> resp (sendReset env0 [alice] (reset_request ''nobody@x.com''))
       = resp (sendReset env0 [alice, bob\<lparr>email := ''nobody@x.com''\<rparr>]
                (reset_request ''nobody@x.com''))
   \<and> store (sendReset env0 [alice] (reset_request ''nobody@x.com'')) = [alice]"
  using sendReset_hides_existence [of "reset_request ''nobody@x.com''"
      "\<lparr>Username = [], Email = ''nobody@x.com'', Password = []\<rparr>" env0 "[alice]"
      "[alice, bob\<lparr>email := ''nobody@x.com''\<rparr>]"]
  by (simp add: sample_defs handler_defs)

subsection \<open>C10: which identity a completed reset changes\<close>

text \<open>
  C10. For a (POST) resetPassword with non-empty fields whose username and token match
  some row, when neither statement fails and the password hashes to \<open>hashed\<close>: the new
  table is the old one with, in exactly the rows whose email is the request's email, the
  reset token set to the empty string and the column \<^verbatim>\<open>password\<close> set to \<open>hashed\<close>. Every
  row with another email is unchanged, also the row whose username and token passed the
  check.
\<close>

theorem resetPassword_updates_by_email:
  assumes "meth r = POST"
    and "body r = Some c"
    and "Username c \<noteq> []" and "Email c \<noteq> []" and "Password c \<noteq> []"
    and "db_error e PairExists = None"
    and "db_error e UpdatePassword = None"
    and "GenerateFromPassword e (Password c) = Some hashed"
    and "\<exists>u\<in>set st. username u = Username c \<and> resetToken u = Some (query_Get r ''token'')"
  shows "store (resetPassword e st r) =
           map (\<lambda>u. if email u = Email c
                     then u\<lparr>resetToken := Some [], password := Some hashed\<rparr> else u) st
       \<and> (\<forall>u\<in>set st. email u \<noteq> Email c \<longrightarrow> u \<in> set (store (resetPassword e st r)))
       \<and> (\<forall>u\<in>set st. email u = Email c \<longrightarrow>
             u\<lparr>resetToken := Some [], password := Some hashed\<rparr>
               \<in> set (store (resetPassword e st r)))"
proof -
  have s: "store (resetPassword e st r) =
           map (\<lambda>u. if email u = Email c
                     then u\<lparr>resetToken := Some [], password := Some hashed\<rparr> else u) st"
    using assms by (auto simp: resetPassword_def reply_def list_ex_iff)
  show ?thesis unfolding s by (auto simp: image_iff)
qed

theorem resetPassword_updates_by_email_witness:
  "store (resetPassword env0 [alice\<lparr>resetToken := Some ''a1B2c3''\<rparr>, bob]
            (complete_reset ''alice'' ''bob@x.com'' ''pw2'' ''a1B2c3''))
     = [alice\<lparr>resetToken := Some ''a1B2c3''\<rparr>,
        bob\<lparr>resetToken := Some [], password := Some ''$2a$10$pw2''\<rparr>]"
  using resetPassword_updates_by_email [of "complete_reset ''alice'' ''bob@x.com'' ''pw2'' ''a1B2c3''"
      "\<lparr>Username = ''alice'', Email = ''bob@x.com'', Password = ''pw2''\<rparr>" env0
      "''$2a$10$pw2''" "[alice\<lparr>resetToken := Some ''a1B2c3''\<rparr>, bob]"]
  by (simp add: sample_defs handler_defs)

end
